theory Spec2Isabelle
  imports Main "HOL-Library.Multiset"
begin

section \<open>Python values used by the player\<close>

text \<open>
  A Python \<open>str\<close> is modelled as a \<open>string\<close>: the characters stand for the code
  points below 256. A \<open>dict\<close> is an association list in insertion order, whose keys
  are pairwise different; a lookup reads it with \<open>map_of\<close>. Exceptions are values of
  the type \<open>exception\<close>, returned on the left of a sum.
\<close>

datatype StopError_message =
  Current_playlist_entry_not_found
| Current_track_does_not_exist

datatype exception =
  KeyError
| TypeError
| AssertionError
| FileNotFoundError
| FileExistsError
| NotADirectoryError
| PermissionError
| IOError
| StopError StopError_message

text \<open>\<open>d[k] = v\<close>: an existing key keeps its place, a new key goes to the end.\<close>

fun dict_setitem :: "('k \<times> 'v) list \<Rightarrow> 'k \<Rightarrow> 'v \<Rightarrow> ('k \<times> 'v) list" where
  "dict_setitem [] k v = [(k, v)]"
| "dict_setitem ((k', v') # d) k v =
     (if k' = k then (k', v) # d else (k', v') # dict_setitem d k v)"

text \<open>\<open>separator.join(values)\<close>.\<close>

fun join :: "string \<Rightarrow> string list \<Rightarrow> string" where
  "join separator [] = []"
| "join separator [v] = v"
| "join separator (v # w # vs) = v @ separator @ join separator (w # vs)"

section \<open>metadata/tag.py\<close>

datatype TagName = ALBUM | ALBUMARTIST | MUSICBRAINZ_ALBUMID | TRACKNUMBER

fun TagName_value :: "TagName \<Rightarrow> string" where
  "TagName_value ALBUM = ''album''"
| "TagName_value ALBUMARTIST = ''albumartist''"
| "TagName_value MUSICBRAINZ_ALBUMID = ''musicbrainz_albumid''"
| "TagName_value TRACKNUMBER = ''tracknumber''"

text \<open>\<open>ArbitraryTagName = Union[TagName, str]\<close>.\<close>

datatype ArbitraryTagName = Name TagName | Str string

fun tag_name_str :: "ArbitraryTagName \<Rightarrow> string" where
  "tag_name_str (Name tag_name) = TagName_value tag_name"
| "tag_name_str (Str tag_name) = tag_name"

type_synonym Tags = "(string \<times> string list) list"

text \<open>
  \<open>Tags.__init__\<close>: the dict comprehension \<open>{name: tuple(values) for name, values in
  tags.items()}\<close> stores the items one after the other.
\<close>

definition Tags :: "(string \<times> string list) list \<Rightarrow> Tags" where
  "Tags tags = foldl (\<lambda>d (name, values). dict_setitem d name values) [] tags"

definition Tags_getitem :: "Tags \<Rightarrow> ArbitraryTagName \<Rightarrow> exception + string list" where
  "Tags_getitem self key =
     (case map_of self (tag_name_str key) of
        None \<Rightarrow> Inl KeyError
      | Some values \<Rightarrow> Inr values)"

definition Tags_contains :: "Tags \<Rightarrow> ArbitraryTagName \<Rightarrow> bool" where
  "Tags_contains self key = (map_of self (tag_name_str key) \<noteq> None)"

text \<open>
  \<open>self.get(key, default)\<close> is the mixin method of \<open>Mapping\<close>: it indexes with
  \<open>self[key]\<close> and turns a \<open>KeyError\<close> into the default.
\<close>

definition Tags_get :: "Tags \<Rightarrow> ArbitraryTagName \<Rightarrow> string list \<Rightarrow> string list" where
  "Tags_get self key dflt =
     (case Tags_getitem self key of
        Inl _ \<Rightarrow> dflt
      | Inr values \<Rightarrow> values)"

definition one_or_none :: "Tags \<Rightarrow> ArbitraryTagName \<Rightarrow> string option" where
  "one_or_none self key =
     (let values = Tags_get self key []
      in if length values = 1 then Some (values ! 0) else None)"

definition singular :: "Tags \<Rightarrow> ArbitraryTagName \<Rightarrow> string \<Rightarrow> string \<Rightarrow> string" where
  "singular self key dflt separator = join separator (Tags_get self key [dflt])"

text \<open>The keyword defaults of \<open>singular\<close>.\<close>

definition singular_default :: string where
  "singular_default = ''[unknown]''"

definition singular_separator :: string where
  "singular_separator = ''; ''"

text \<open>
  \<open>\d\<close> on the code points below 256 is the ten characters \<open>0\<close> to \<open>9\<close>.
\<close>

definition is_digit :: "char \<Rightarrow> bool" where
  "is_digit c = (c \<in> set ''0123456789'')"

text \<open>
  \<open>_TRACKNUMBER_REGEX.fullmatch(s)\<close> for the pattern
  \<^verbatim>\<open>(?P<tracknumber>\d+)(?:/(?P<totaltracks>\d+))?\<close>, returning the group
  \<open>tracknumber\<close> of the match. The greedy \<open>\d+\<close> takes the longest run of digits; a
  shorter run would be followed by a digit, where the pattern wants \<open>/\<close> or the end, so
  backtracking into it never succeeds.
\<close>

definition TRACKNUMBER_REGEX_fullmatch :: "string \<Rightarrow> string option" where
  "TRACKNUMBER_REGEX_fullmatch s =
     (let tracknumber = takeWhile is_digit s;
          rest = dropWhile is_digit s
      in if tracknumber = [] then None
         else (case rest of
                 [] \<Rightarrow> Some tracknumber
               | c # totaltracks \<Rightarrow>
                   if c = CHR ''/'' \<and> totaltracks \<noteq> [] \<and> list_all is_digit totaltracks
                   then Some tracknumber
                   else None))"

definition tracknumber :: "Tags \<Rightarrow> string option" where
  "tracknumber self =
     (case one_or_none self (Name TRACKNUMBER) of
        None \<Rightarrow> None
      | Some v \<Rightarrow>
          (case TRACKNUMBER_REGEX_fullmatch v of
             None \<Rightarrow> Some v
           | Some match_tracknumber \<Rightarrow> Some match_tracknumber))"

text \<open>
  The pattern in words: the value \<open>v\<close> is a non-empty run of digits \<open>ds\<close>, alone or
  followed by \<open>/\<close> and a second non-empty run of digits.
\<close>

definition tracknumber_pattern :: "string \<Rightarrow> string \<Rightarrow> bool" where
  "tracknumber_pattern v ds =
     (ds \<noteq> [] \<and> list_all is_digit ds \<and>
      (v = ds \<or> (\<exists>ts. ts \<noteq> [] \<and> list_all is_digit ts \<and> v = ds @ ''/'' @ ts)))"

subsection \<open>compose\<close>

text \<open>
  \<open>collections.Counter\<close> is a dict from elements to integer counts. Building one from
  an iterable adds one to the count of each element in turn; indexing a missing element
  gives 0.
\<close>

type_synonym 'a Counter = "('a \<times> int) list"

definition Counter_getitem :: "'a Counter \<Rightarrow> 'a \<Rightarrow> int" where
  "Counter_getitem self elem = (case map_of self elem of None \<Rightarrow> 0 | Some cnt \<Rightarrow> cnt)"

definition Counter :: "'a list \<Rightarrow> 'a Counter" where
  "Counter iterable =
     foldl (\<lambda>self elem. dict_setitem self elem (Counter_getitem self elem + 1)) [] iterable"

text \<open>
  \<open>self & other\<close> (\<open>Counter.__and__\<close>, which \<open>operator.and_\<close> calls): for each item
  of \<open>self\<close> in order, the smaller of the two counts, stored when it is positive.
  \<open>and_step\<close> is the body of that loop.
\<close>

definition and_step :: "'a Counter \<Rightarrow> 'a Counter \<Rightarrow> 'a \<times> int \<Rightarrow> 'a Counter" where
  "and_step other = (\<lambda>result (elem, cnt).
              let other_count = Counter_getitem other elem;
                  newcount = (if cnt < other_count then cnt else other_count)
              in if newcount > 0 then dict_setitem result elem newcount else result)"

definition Counter_and :: "'a Counter \<Rightarrow> 'a Counter \<Rightarrow> 'a Counter" where
  "Counter_and self other = foldl (and_step other) [] self"

text \<open>\<open>Counter.elements()\<close>: each element repeated as many times as its count.\<close>

definition Counter_elements :: "'a Counter \<Rightarrow> 'a list" where
  "Counter_elements self = concat (map (\<lambda>(elem, cnt). replicate (nat cnt) elem) self)"

text \<open>
  \<open>functools.reduce(function, iterable)\<close> with no initial value: a left fold starting
  from the first item, and a \<open>TypeError\<close> on an empty iterable.
\<close>

fun reduce :: "('a \<Rightarrow> 'a \<Rightarrow> 'a) \<Rightarrow> 'a list \<Rightarrow> exception + 'a" where
  "reduce function [] = Inl TypeError"
| "reduce function (x # xs) = Inr (foldl function x xs)"

text \<open>
  \<open>tags[name].append(value)\<close> on a \<open>defaultdict(list)\<close>: a missing name is first
  stored with an empty list.
\<close>

definition defaultdict_append ::
  "('k \<times> 'v list) list \<Rightarrow> 'k \<Rightarrow> 'v \<Rightarrow> ('k \<times> 'v list) list" where
  "defaultdict_append d name v =
     (case map_of d name of
        None \<Rightarrow> dict_setitem d name [v]
      | Some values \<Rightarrow> dict_setitem d name (values @ [v]))"

text \<open>
  The inner loop of \<open>compose\<close>: the (name, value) pairs of one component, in the order
  of \<open>component_tags.items()\<close>.
\<close>

definition tag_pairs :: "Tags \<Rightarrow> (string \<times> string) list" where
  "tag_pairs component_tags =
     concat (map (\<lambda>(name, values). map (\<lambda>v. (name, v)) values) component_tags)"

text \<open>
  An argument of type \<open>Iterable\<close>. A sized collection (a list, a tuple) is false when
  it is empty; an iterator or a generator is always true. Both yield their items in
  order.
\<close>

datatype 'a iterable = Sized "'a list" | Iterator "'a list"

fun truth :: "'a iterable \<Rightarrow> bool" where
  "truth (Sized xs) = (xs \<noteq> [])"
| "truth (Iterator xs) = True"

fun iterate :: "'a iterable \<Rightarrow> 'a list" where
  "iterate (Sized xs) = xs"
| "iterate (Iterator xs) = xs"

definition compose :: "Tags iterable \<Rightarrow> exception + Tags" where
  "compose components_tags =
     (if \<not> truth components_tags then Inr (Tags [])
      else
        let tag_pair_counters =
              map (\<lambda>component_tags. Counter (tag_pairs component_tags))
                (iterate components_tags)
        in case reduce Counter_and tag_pair_counters of
             Inl e \<Rightarrow> Inl e
           | Inr common_tag_pair_counter \<Rightarrow>
               Inr (Tags (foldl (\<lambda>tags (name, v). defaultdict_append tags name v) []
                            (Counter_elements common_tag_pair_counter))))"

section \<open>player/order.py\<close>

datatype ErrorPolicy = RETURN_NONE | RAISE_STOP_ERROR

text \<open>\<open>ErrorPolicy.DEFAULT\<close> is an alias of \<open>RETURN_NONE\<close>.\<close>

definition DEFAULT :: ErrorPolicy where
  "DEFAULT = RETURN_NONE"

text \<open>
  The entities of \<open>metadata/entity.py\<close>, as far as the order reads them: a track has an
  identity token, a playable unit has a track and the playlist entry it belongs to.
  The types of tokens and of playlist entries are parameters.
\<close>

record 'tok Track =
  token :: 'tok

record ('tok, 'entry) PlayableUnit =
  track :: "'tok Track"
  playlist_entry :: 'entry

text \<open>
  Modelled from the spec: \<open>Playlist.playable_units\<close> of \<open>player/playlist.py\<close>, which
  returns the ordered sequence of playable units of an entry and fails with a lookup
  failure (\<open>KeyError\<close>) if the entry is no longer in the playlist. The playlist is the
  partial map from its entries to their units.
\<close>

type_synonym ('tok, 'entry) Playlist = "'entry \<Rightarrow> ('tok, 'entry) PlayableUnit list option"

definition playable_units ::
  "('tok, 'entry) Playlist \<Rightarrow> 'entry \<Rightarrow> exception + ('tok, 'entry) PlayableUnit list" where
  "playable_units self entry =
     (case self entry of None \<Rightarrow> Inl KeyError | Some units \<Rightarrow> Inr units)"

text \<open>An \<open>Order\<close> object holds the playlist it follows.\<close>

record ('tok, 'entry) Order =
  playlist :: "('tok, 'entry) Playlist"

text \<open>\<open>d[k]\<close> on a dict.\<close>

definition dict_getitem :: "('k \<times> 'v) list \<Rightarrow> 'k \<Rightarrow> exception + 'v" where
  "dict_getitem d k = (case map_of d k of None \<Rightarrow> Inl KeyError | Some v \<Rightarrow> Inr v)"

text \<open>\<open>enumerate(units)\<close>, with Python's integers as indices.\<close>

definition py_enumerate :: "'a list \<Rightarrow> (int \<times> 'a) list" where
  "py_enumerate xs = map (\<lambda>(i, x). (int i, x)) (enumerate 0 xs)"

text \<open>
  The dict comprehension \<open>{unit.track.token: index for index, unit in enumerate(units)}\<close>.
\<close>

definition token_index ::
  "('tok, 'entry) PlayableUnit list \<Rightarrow> ('tok \<times> int) list" where
  "token_index units =
     foldl (\<lambda>d (index, unit). dict_setitem d (token (track unit)) index) []
       (py_enumerate units)"

definition unit_in_same_entry ::
  "('tok, 'entry) Order \<Rightarrow> ('tok, 'entry) PlayableUnit option \<Rightarrow> int
   \<Rightarrow> exception + ('tok, 'entry) PlayableUnit option" where
  "unit_in_same_entry self current offset =
     (case current of
        None \<Rightarrow> Inr None
      | Some cur \<Rightarrow>
          (case playable_units (playlist self) (playlist_entry cur) of
             Inl KeyError \<Rightarrow> Inl (StopError Current_playlist_entry_not_found)
           | Inl e \<Rightarrow> Inl e
           | Inr units \<Rightarrow>
               (case dict_getitem (token_index units) (token (track cur)) of
                  Inl KeyError \<Rightarrow> Inl (StopError Current_track_does_not_exist)
                | Inl e \<Rightarrow> Inl e
                | Inr index \<Rightarrow>
                    if 0 \<le> index + offset \<and> index + offset < int (length units)
                    then Inr (Some (units ! nat (index + offset)))
                    else Inr None)))"

text \<open>
  What \<open>logging.exception(message)\<close> records: the message and the exception being
  handled.
\<close>

datatype log_record = Log_exception string exception

text \<open>
  The decorator \<open>handle_stop_error\<close>. The wrapper takes the positional arguments and
  the keyword \<open>error_policy\<close>, which is \<open>None\<close> here when the caller leaves it out;
  it returns the result or the exception raised, and the records it logged.
\<close>

definition handle_stop_error ::
  "('args \<Rightarrow> ErrorPolicy \<Rightarrow> exception + 'a option) \<Rightarrow> 'args \<Rightarrow> ErrorPolicy option
   \<Rightarrow> (exception + 'a option) \<times> log_record list" where
  "handle_stop_error function args error_policy_kw =
     (let error_policy = (case error_policy_kw of None \<Rightarrow> DEFAULT | Some p \<Rightarrow> p)
      in case function args RAISE_STOP_ERROR of
           Inr result \<Rightarrow> (Inr result, [])
         | Inl (StopError message) \<Rightarrow>
             if error_policy = RAISE_STOP_ERROR then (Inl (StopError message), [])
             else if error_policy = RETURN_NONE
             then (Inr None, [Log_exception ''Stopping due to error.'' (StopError message)])
             else (Inl AssertionError, [])
         | Inl e \<Rightarrow> (Inl e, []))"

text \<open>The bodies of \<open>LinearEntry.next\<close> and \<open>LinearEntry.previous\<close>, before decoration.\<close>

definition next_function ::
  "('tok, 'entry) Order \<times> ('tok, 'entry) PlayableUnit option \<Rightarrow> ErrorPolicy
   \<Rightarrow> exception + ('tok, 'entry) PlayableUnit option" where
  "next_function args error_policy = (case args of (self, current) \<Rightarrow>
     unit_in_same_entry self current 1)"

definition previous_function ::
  "('tok, 'entry) Order \<times> ('tok, 'entry) PlayableUnit option \<Rightarrow> ErrorPolicy
   \<Rightarrow> exception + ('tok, 'entry) PlayableUnit option" where
  "previous_function args error_policy = (case args of (self, current) \<Rightarrow>
     unit_in_same_entry self current (- 1))"

definition LinearEntry_next ::
  "('tok, 'entry) Order \<Rightarrow> ('tok, 'entry) PlayableUnit option \<Rightarrow> ErrorPolicy option
   \<Rightarrow> (exception + ('tok, 'entry) PlayableUnit option) \<times> log_record list" where
  "LinearEntry_next self current error_policy =
     handle_stop_error next_function (self, current) error_policy"

definition LinearEntry_previous ::
  "('tok, 'entry) Order \<Rightarrow> ('tok, 'entry) PlayableUnit option \<Rightarrow> ErrorPolicy option
   \<Rightarrow> (exception + ('tok, 'entry) PlayableUnit option) \<times> log_record list" where
  "LinearEntry_previous self current error_policy =
     handle_stop_error previous_function (self, current) error_policy"

section \<open>ui/screenshot_testlib.py\<close>

text \<open>
  The harness reads the environment and writes to the file system; both are in the
  state \<open>World\<close> that \<open>register_widget\<close> takes and returns. The file system is a tree
  of directories and files: a location is the list of names that lead to a node from
  the root directory, and \<open>files\<close> maps the locations that exist to their nodes.
  \<open>refused\<close> holds the locations to which the operating system refuses access, with
  the error it raises (permissions, limits on names and space). Symbolic links are not
  modelled.
\<close>

type_synonym location = "string list"

datatype 'c node = Directory | File 'c

record 'c World =
  environ :: "string \<rightharpoonup> string"
  cwd :: location
  files :: "location \<rightharpoonup> 'c node"
  refused :: "location \<rightharpoonup> exception"

text \<open>\<open>os.getenv(name)\<close>: the value, or \<open>None\<close> when the variable is unset.\<close>

definition getenv :: "'c World \<Rightarrow> string \<Rightarrow> string option" where
  "getenv w name = environ w name"

subsection \<open>pathlib\<close>

text \<open>A path is the list of its parts, as \<open>pathlib\<close> keeps them.\<close>

type_synonym path = "string list"

text \<open>\<open>s.split('/')\<close>.\<close>

fun split_slash :: "string \<Rightarrow> string list" where
  "split_slash [] = [[]]"
| "split_slash (c # cs) =
     (if c = CHR ''/'' then [] # split_slash cs
      else (case split_slash cs of
              [] \<Rightarrow> [[c]]
            | part # parts \<Rightarrow> (c # part) # parts))"

text \<open>
  \<open>pathlib.Path(s)\<close> on POSIX: the root is \<open>//\<close> for exactly two leading slashes and
  \<open>/\<close> for any other number of them; empty parts and \<open>.\<close> parts are dropped.
\<close>

definition Path :: "string \<Rightarrow> path" where
  "Path s =
     (let root = (if take 2 s = ''//'' \<and> take 3 s \<noteq> ''///'' then [''//'']
                  else if take 1 s = ''/'' then [''/'']
                  else [])
      in root @ filter (\<lambda>part. part \<noteq> [] \<and> part \<noteq> ''.'') (split_slash s))"

definition has_root :: "path \<Rightarrow> bool" where
  "has_root p = (case p of [] \<Rightarrow> False | r # _ \<Rightarrow> r = ''/'' \<or> r = ''//'')"

text \<open>\<open>self.joinpath(other)\<close>: an absolute \<open>other\<close> replaces \<open>self\<close>.\<close>

definition joinpath :: "path \<Rightarrow> string \<Rightarrow> path" where
  "joinpath self other =
     (let parts2 = Path other
      in if has_root parts2 then parts2 else self @ parts2)"

subsection \<open>The operating system\<close>

text \<open>
  Looking at a location: the error of a refusal, or the node there, if any. The root
  directory always exists.
\<close>

definition access :: "'c World \<Rightarrow> location \<Rightarrow> exception + 'c node option" where
  "access w q =
     (case refused w q of
        Some e \<Rightarrow> Inl e
      | None \<Rightarrow> Inr (if q = [] then Some Directory else files w q))"

text \<open>
  Path resolution: from the directory \<open>cur\<close>, each name in turn must lead to a
  directory; \<open>..\<close> leads to the parent, and the root is its own parent. A missing name
  is \<open>ENOENT\<close> and a name that is not a directory is \<open>ENOTDIR\<close>.
\<close>

fun walk :: "'c World \<Rightarrow> location \<Rightarrow> string list \<Rightarrow> exception + location" where
  "walk w cur [] = Inr cur"
| "walk w cur (name # names) =
     (if name = ''..'' then walk w (butlast cur) names
      else (case access w (cur @ [name]) of
              Inl e \<Rightarrow> Inl e
            | Inr None \<Rightarrow> Inl FileNotFoundError
            | Inr (Some (File _)) \<Rightarrow> Inl NotADirectoryError
            | Inr (Some Directory) \<Rightarrow> walk w (cur @ [name]) names))"

text \<open>
  Where the resolution of a path starts, and the names it goes through: an absolute
  path starts at the root, a relative one at the current directory.
\<close>

definition start :: "'c World \<Rightarrow> path \<Rightarrow> location" where
  "start w p = (if has_root p then [] else cwd w)"

definition names_of :: "path \<Rightarrow> string list" where
  "names_of p = (if has_root p then tl p else p)"

text \<open>The directory a path names, when it names one.\<close>

definition resolve_dir :: "'c World \<Rightarrow> path \<Rightarrow> exception + location" where
  "resolve_dir w p = walk w (start w p) (names_of p)"

text \<open>
  \<open>self.is_dir()\<close>: a path that does not resolve because a name is missing or is
  not a directory is no directory; any other error is raised.
\<close>

definition is_dir :: "'c World \<Rightarrow> path \<Rightarrow> exception + bool" where
  "is_dir w p =
     (case resolve_dir w p of
        Inr _ \<Rightarrow> Inr True
      | Inl FileNotFoundError \<Rightarrow> Inr False
      | Inl NotADirectoryError \<Rightarrow> Inr False
      | Inl e \<Rightarrow> Inl e)"

text \<open>
  \<open>os.mkdir(path)\<close>: all names but the last are resolved to a directory; the last
  name must not exist there yet (\<open>EEXIST\<close>). A path with no last name of its own (the
  root, the current directory, or one that ends in \<open>..\<close>) names an existing directory,
  if anything.
\<close>

definition os_mkdir :: "path \<Rightarrow> 'c World \<Rightarrow> exception + 'c World" where
  "os_mkdir p w =
     (let names = names_of p
      in if names = [] \<or> last names = ''..''
         then (case resolve_dir w p of Inl e \<Rightarrow> Inl e | Inr _ \<Rightarrow> Inl FileExistsError)
         else (case walk w (start w p) (butlast names) of
                 Inl e \<Rightarrow> Inl e
               | Inr d \<Rightarrow>
                   (case access w (d @ [last names]) of
                      Inl e \<Rightarrow> Inl e
                    | Inr (Some _) \<Rightarrow> Inl FileExistsError
                    | Inr None \<Rightarrow>
                        Inr (w\<lparr>files := (files w)(d @ [last names] \<mapsto> Directory)\<rparr>))))"

text \<open>
  \<open>self.mkdir(exist_ok=exist_ok)\<close> of \<open>pathlib\<close>, with \<open>parents\<close> left at \<open>False\<close>: a
  \<open>FileNotFoundError\<close> of \<open>os.mkdir\<close> is raised again; any other error is raised again
  unless \<open>exist_ok\<close> holds and the path is a directory.
\<close>

definition mkdir :: "path \<Rightarrow> bool \<Rightarrow> 'c World \<Rightarrow> exception + 'c World" where
  "mkdir self exist_ok w =
     (case os_mkdir self w of
        Inr w' \<Rightarrow> Inr w'
      | Inl FileNotFoundError \<Rightarrow> Inl FileNotFoundError
      | Inl e \<Rightarrow>
          if \<not> exist_ok then Inl e
          else (case is_dir w self of
                  Inl e' \<Rightarrow> Inl e'
                | Inr False \<Rightarrow> Inl e
                | Inr True \<Rightarrow> Inr w))"

text \<open>
  \<open>surface.write_to_png(path)\<close>: the file is opened for writing and then holds the
  image. When it cannot be opened (its directory does not resolve, access is refused,
  or the path names a directory) an error is raised, here \<open>IOError\<close>.
\<close>

definition write_to_png :: "'c \<Rightarrow> path \<Rightarrow> 'c World \<Rightarrow> exception + 'c World" where
  "write_to_png surface p w =
     (let names = names_of p
      in if names = [] \<or> last names = ''..'' then Inl IOError
         else (case walk w (start w p) (butlast names) of
                 Inl e \<Rightarrow> Inl IOError
               | Inr d \<Rightarrow>
                   (case access w (d @ [last names]) of
                      Inl e \<Rightarrow> Inl IOError
                    | Inr (Some Directory) \<Rightarrow> Inl IOError
                    | Inr _ \<Rightarrow>
                        Inr (w\<lparr>files := (files w)(d @ [last names] \<mapsto> File surface)\<rparr>))))"

subsection \<open>register_widget\<close>

text \<open>
  The parameter \<open>get_surface\<close> stands for the first five statements and
  \<open>window.get_surface()\<close>: the widget is put into an off-screen window, the main loop
  runs until idle, and the window's surface is the image. For a widget these calls of
  the toolkit do not raise.
\<close>

definition register_widget ::
  "('widget \<Rightarrow> 'c) \<Rightarrow> string \<Rightarrow> string \<Rightarrow> 'widget \<Rightarrow> 'c World
   \<Rightarrow> (exception + unit) \<times> 'c World" where
  "register_widget get_surface module_name screenshot_name widget w =
     (case getenv w ''TEST_ARTIFACT_DIR'' of
        None \<Rightarrow> (Inr (), w)
      | Some artifact_dir \<Rightarrow>
          (let screenshot_dir = joinpath (Path artifact_dir) ''screenshots''
           in case mkdir screenshot_dir True w of
                Inl e \<Rightarrow> (Inl e, w)
              | Inr w1 \<Rightarrow>
                  (case write_to_png (get_surface widget)
                          (joinpath screenshot_dir
                             (module_name @ ''.'' @ screenshot_name @ ''.png'')) w1 of
                     Inl e \<Rightarrow> (Inl e, w1)
                   | Inr w2 \<Rightarrow> (Inr (), w2))))"

section \<open>Tag accessors\<close>

lemma not_digit_slash: "\<not> is_digit CHR ''/''"
  by (simp add: is_digit_def)

lemma takeWhile_all: "list_all P xs \<Longrightarrow> takeWhile P xs = xs"
  by (induction xs) auto

lemma dropWhile_all: "list_all P xs \<Longrightarrow> dropWhile P xs = []"
  by (induction xs) auto

lemma takeWhile_append_stop:
  "list_all P xs \<Longrightarrow> \<not> P y \<Longrightarrow> takeWhile P (xs @ y # ys) = xs"
  by (induction xs) auto

lemma dropWhile_append_stop:
  "list_all P xs \<Longrightarrow> \<not> P y \<Longrightarrow> dropWhile P (xs @ y # ys) = y # ys"
  by (induction xs) auto

lemma fullmatch_pattern:
  assumes "tracknumber_pattern v ds"
  shows "TRACKNUMBER_REGEX_fullmatch v = Some ds \<and> ds = takeWhile is_digit v"
proof -
  from assms have ds: "ds \<noteq> []" "list_all is_digit ds"
    by (simp_all add: tracknumber_pattern_def)
  from assms consider "v = ds"
    | ts where "ts \<noteq> []" "list_all is_digit ts" "v = ds @ ''/'' @ ts"
    by (auto simp: tracknumber_pattern_def)
  then show ?thesis
  proof cases
    case 1
    with ds show ?thesis
      by (simp add: TRACKNUMBER_REGEX_fullmatch_def takeWhile_all dropWhile_all)
  next
    case 2
    with ds show ?thesis
      by (simp add: TRACKNUMBER_REGEX_fullmatch_def takeWhile_append_stop
          dropWhile_append_stop not_digit_slash)
  qed
qed

lemma list_all_takeWhile: "list_all P (takeWhile P xs)"
  by (induction xs) auto

lemma fullmatch_Some_pattern:
  assumes "TRACKNUMBER_REGEX_fullmatch v = Some ds"
  shows "tracknumber_pattern v ds"
proof -
  have v: "v = takeWhile is_digit v @ dropWhile is_digit v" by simp
  from assms have ds: "ds = takeWhile is_digit v" "ds \<noteq> []"
    by (auto simp: TRACKNUMBER_REGEX_fullmatch_def Let_def split: if_splits list.splits)
  have alld: "list_all is_digit ds" using ds by (simp add: list_all_takeWhile)
  show ?thesis
  proof (cases "dropWhile is_digit v")
    case Nil
    with v ds have "v = ds" by simp
    with ds alld show ?thesis by (simp add: tracknumber_pattern_def)
  next
    case (Cons c ts)
    with assms have "c = CHR ''/''" "ts \<noteq> []" "list_all is_digit ts"
      by (auto simp: TRACKNUMBER_REGEX_fullmatch_def Let_def split: if_splits)
    moreover from v Cons ds have "v = ds @ c # ts" by simp
    ultimately show ?thesis using ds alld
      by (auto simp: tracknumber_pattern_def)
  qed
qed

lemma one_or_none_single:
  "Tags_getitem self key = Inr [v] \<Longrightarrow> one_or_none self key = Some v"
  by (simp add: one_or_none_def Tags_get_def)

lemma one_or_none_absent:
  "\<not> Tags_contains self key \<Longrightarrow> one_or_none self key = None"
  by (simp add: one_or_none_def Tags_get_def Tags_getitem_def Tags_contains_def)

text \<open>
  Claim C4: when the single value of the \<open>TRACKNUMBER\<close> tag matches the pattern,
  \<open>tracknumber\<close> returns its leading run of digits; when the value does not match, it
  returns the value unchanged; when the tag is absent, it returns absent.
\<close>

theorem tracknumber_parsing:
  "(Tags_getitem self (Name TRACKNUMBER) = Inr [v] \<and> tracknumber_pattern v ds
      \<longrightarrow> tracknumber self = Some ds \<and> ds = takeWhile is_digit v)
   \<and> (Tags_getitem self (Name TRACKNUMBER) = Inr [v] \<and> (\<forall>ds. \<not> tracknumber_pattern v ds)
      \<longrightarrow> tracknumber self = Some v)
   \<and> (\<not> Tags_contains self (Name TRACKNUMBER) \<longrightarrow> tracknumber self = None)"
proof (intro conjI impI)
  assume h: "Tags_getitem self (Name TRACKNUMBER) = Inr [v] \<and> tracknumber_pattern v ds"
  then have "one_or_none self (Name TRACKNUMBER) = Some v"
    by (simp add: one_or_none_single)
  moreover from h have "TRACKNUMBER_REGEX_fullmatch v = Some ds"
    by (simp add: fullmatch_pattern)
  ultimately show "tracknumber self = Some ds"
    by (simp add: tracknumber_def)
  from h show "ds = takeWhile is_digit v"
    using fullmatch_pattern by blast
next
  assume h: "Tags_getitem self (Name TRACKNUMBER) = Inr [v] \<and> (\<forall>ds. \<not> tracknumber_pattern v ds)"
  then have "one_or_none self (Name TRACKNUMBER) = Some v"
    by (simp add: one_or_none_single)
  moreover from h have "TRACKNUMBER_REGEX_fullmatch v = None"
    using fullmatch_Some_pattern by (cases "TRACKNUMBER_REGEX_fullmatch v") auto
  ultimately show "tracknumber self = Some v"
    by (simp add: tracknumber_def)
next
  assume "\<not> Tags_contains self (Name TRACKNUMBER)"
  then show "tracknumber self = None"
    by (simp add: tracknumber_def one_or_none_absent)
qed

theorem tracknumber_parsing_witness:
  "tracknumber (Tags [(''tracknumber'', [''3/12''])]) = Some ''3''
   \<and> tracknumber (Tags [(''tracknumber'', [''7''])]) = Some ''7''
   \<and> tracknumber (Tags [(''tracknumber'', [''B2''])]) = Some ''B2''
   \<and> tracknumber (Tags []) = None"
proof -
  have p1: "tracknumber_pattern ''3/12'' ''3''"
    unfolding tracknumber_pattern_def
    by (intro conjI disjI2 exI [of _ "''12''"]) (simp_all add: is_digit_def)
  have p2: "tracknumber_pattern ''7'' ''7''"
    by (simp add: tracknumber_pattern_def is_digit_def)
  have p3: "\<forall>ds. \<not> tracknumber_pattern ''B2'' ds"
    by (auto simp: tracknumber_pattern_def is_digit_def Cons_eq_append_conv)
  have g1: "Tags_getitem (Tags [(''tracknumber'', [''3/12''])]) (Name TRACKNUMBER) = Inr [''3/12'']"
    by (simp add: Tags_getitem_def Tags_def)
  have g2: "Tags_getitem (Tags [(''tracknumber'', [''7''])]) (Name TRACKNUMBER) = Inr [''7'']"
    by (simp add: Tags_getitem_def Tags_def)
  have g3: "Tags_getitem (Tags [(''tracknumber'', [''B2''])]) (Name TRACKNUMBER) = Inr [''B2'']"
    by (simp add: Tags_getitem_def Tags_def)
  have g4: "\<not> Tags_contains (Tags []) (Name TRACKNUMBER)"
    by (simp add: Tags_contains_def Tags_def)
  show ?thesis
    using tracknumber_parsing [of "Tags [(''tracknumber'', [''3/12''])]" "''3/12''" "''3''"]
      tracknumber_parsing [of "Tags [(''tracknumber'', [''7''])]" "''7''" "''7''"]
      tracknumber_parsing [of "Tags [(''tracknumber'', [''B2''])]" "''B2''"]
      tracknumber_parsing [of "Tags []"]
      p1 p2 p3 g1 g2 g3 g4
    by blast
qed

text \<open>
  Claim C10: when the \<open>TRACKNUMBER\<close> tag carries two or more values, \<open>one_or_none\<close>
  yields nothing and the \<open>tracknumber\<close> accessor returns absent, also when every single
  value would parse as a track number.
\<close>

theorem tracknumber_several_values:
  "Tags_getitem self (Name TRACKNUMBER) = Inr values \<Longrightarrow> 2 \<le> length values \<Longrightarrow>
   one_or_none self (Name TRACKNUMBER) = None \<and> tracknumber self = None"
  by (simp add: tracknumber_def one_or_none_def Tags_get_def)

theorem tracknumber_several_values_witness:
  "Tags_getitem (Tags [(''tracknumber'', [''1'', ''2''])]) (Name TRACKNUMBER) = Inr [''1'', ''2'']
   \<and> 2 \<le> length [''1'', ''2'']
   \<and> TRACKNUMBER_REGEX_fullmatch ''1'' = Some ''1''
   \<and> TRACKNUMBER_REGEX_fullmatch ''2'' = Some ''2''
   \<and> tracknumber (Tags [(''tracknumber'', [''1'', ''2''])]) = None"
proof -
  have g: "Tags_getitem (Tags [(''tracknumber'', [''1'', ''2''])]) (Name TRACKNUMBER)
           = Inr [''1'', ''2'']"
    by (simp add: Tags_getitem_def Tags_def)
  have m: "TRACKNUMBER_REGEX_fullmatch ''1'' = Some ''1''
           \<and> TRACKNUMBER_REGEX_fullmatch ''2'' = Some ''2''"
    by (simp add: TRACKNUMBER_REGEX_fullmatch_def is_digit_def)
  show ?thesis
    using tracknumber_several_values [OF g] g m by simp
qed

text \<open>
  Claim C6: indexing and the containment test give the same result for a member of
  \<open>TagName\<close> and for the string that is its value.
\<close>

theorem lookup_by_enum_or_str:
  "Tags_getitem self (Name tag_name) = Tags_getitem self (Str (TagName_value tag_name))
   \<and> Tags_contains self (Name tag_name) = Tags_contains self (Str (TagName_value tag_name))"
  by (simp add: Tags_getitem_def Tags_contains_def)

lemma lookup_tracknumber_example:
  "Tags_getitem (Tags [(''tracknumber'', [''1''])]) (Name TRACKNUMBER) = Inr [''1'']
   \<and> Tags_getitem (Tags [(''tracknumber'', [''1''])]) (Str ''tracknumber'') = Inr [''1'']
   \<and> Tags_contains (Tags [(''tracknumber'', [''1''])]) (Name TRACKNUMBER)
   \<and> Tags_contains (Tags [(''tracknumber'', [''1''])]) (Str ''tracknumber'')"
  by (simp add: Tags_getitem_def Tags_contains_def Tags_def)

subsection \<open>singular\<close>

lemma singular_absent:
  "\<not> Tags_contains self key \<Longrightarrow> singular self key dflt separator = dflt"
  by (simp add: singular_def Tags_get_def Tags_getitem_def Tags_contains_def)

lemma singular_present:
  "Tags_getitem self key = Inr values \<Longrightarrow>
   singular self key dflt separator = join separator values"
  by (simp add: singular_def Tags_get_def)

lemma singular_examples:
  "singular (Tags []) (Name TRACKNUMBER) singular_default singular_separator = ''[unknown]''
   \<and> singular (Tags [(''a'', [''x'', ''y''])]) (Str ''a'') singular_default singular_separator
       = ''x; y''"
  by (simp add: singular_def Tags_get_def Tags_getitem_def Tags_def
      singular_default_def singular_separator_def)

text \<open>
  Claim C5: \<open>singular\<close> joins the values of a name with the separator, and returns the
  default whenever the name has no values. For a name that is present with an empty
  tuple of values the code joins nothing and returns the empty string, not the default.
\<close>

theorem singular_present_without_values:
  "Tags_contains (Tags [(''a'', [])]) (Str ''a'')
   \<and> Tags_getitem (Tags [(''a'', [])]) (Str ''a'') = Inr []
   \<and> singular (Tags [(''a'', [])]) (Str ''a'') singular_default singular_separator = []
   \<and> singular (Tags [(''a'', [])]) (Str ''a'') singular_default singular_separator
       \<noteq> singular_default"
  by (simp add: singular_def Tags_get_def Tags_getitem_def Tags_contains_def Tags_def
      singular_default_def)

section \<open>Composition of tags\<close>

lemma map_of_dict_setitem:
  "map_of (dict_setitem d k v) k' = (if k' = k then Some v else map_of d k')"
  by (induction d k v rule: dict_setitem.induct) auto

lemma keys_dict_setitem:
  "fst ` set (dict_setitem d k v) = insert k (fst ` set d)"
  by (induction d k v rule: dict_setitem.induct) auto

lemma distinct_dict_setitem:
  "distinct (map fst d) \<Longrightarrow> distinct (map fst (dict_setitem d k v))"
  by (induction d k v rule: dict_setitem.induct) (auto simp: keys_dict_setitem)

lemma dict_setitem_new:
  "k \<notin> fst ` set d \<Longrightarrow> dict_setitem d k v = d @ [(k, v)]"
  by (induction d k v rule: dict_setitem.induct) auto

lemma Counter_getitem_setitem:
  "Counter_getitem (dict_setitem c k n) p = (if p = k then n else Counter_getitem c p)"
  by (simp add: Counter_getitem_def map_of_dict_setitem)

lemma Counter_fold_getitem:
  "Counter_getitem
     (foldl (\<lambda>self elem. dict_setitem self elem (Counter_getitem self elem + 1)) c xs) p
   = Counter_getitem c p + int (count_list xs p)"
  by (induction xs arbitrary: c) (auto simp: Counter_getitem_setitem)

lemma Counter_fold_distinct:
  "distinct (map fst c) \<Longrightarrow>
   distinct (map fst
     (foldl (\<lambda>self elem. dict_setitem self elem (Counter_getitem self elem + 1)) c xs))"
  by (induction xs arbitrary: c) (auto simp: distinct_dict_setitem)

lemma Counter_getitem_Nil: "Counter_getitem [] p = 0"
  by (simp add: Counter_getitem_def)

lemma Counter_getitem_notin: "p \<notin> fst ` set c \<Longrightarrow> Counter_getitem c p = 0"
  by (cases "map_of c p") (force simp: Counter_getitem_def dest: map_of_SomeD)+

lemma Counter_getitem_Counter: "Counter_getitem (Counter xs) p = int (count_list xs p)"
  by (simp add: Counter_def Counter_fold_getitem Counter_getitem_Nil)

lemma distinct_Counter: "distinct (map fst (Counter xs))"
  by (simp add: Counter_def Counter_fold_distinct)

lemma and_step_getitem:
  "Counter_getitem (and_step other result (elem, cnt)) p =
     (if p = elem \<and> 0 < min cnt (Counter_getitem other elem)
      then min cnt (Counter_getitem other elem) else Counter_getitem result p)"
  by (auto simp: and_step_def Let_def Counter_getitem_setitem min_def)

lemma and_fold_getitem:
  "distinct (map fst self) \<Longrightarrow>
   Counter_getitem (foldl (and_step other) result self) p =
     (if p \<in> fst ` set self
      then (if 0 < min (Counter_getitem self p) (Counter_getitem other p)
            then min (Counter_getitem self p) (Counter_getitem other p)
            else Counter_getitem result p)
      else Counter_getitem result p)"
proof (induction self arbitrary: result p)
  case Nil
  then show ?case by simp
next
  case (Cons e self)
  obtain elem cnt where e: "e = (elem, cnt)" by (cases e)
  from Cons.prems e have notin: "elem \<notin> fst ` set self" and d: "distinct (map fst self)"
    by auto
  have g: "\<And>q. q \<noteq> elem \<Longrightarrow> Counter_getitem ((elem, cnt) # self) q = Counter_getitem self q"
    by (simp add: Counter_getitem_def)
  have g': "Counter_getitem ((elem, cnt) # self) elem = cnt"
    by (simp add: Counter_getitem_def)
  show ?case
  proof (cases "p = elem")
    case True
    with notin g' show ?thesis
      by (simp add: e Cons.IH [OF d] and_step_getitem)
  next
    case False
    with g [of p] show ?thesis
      by (simp add: e Cons.IH [OF d] and_step_getitem)
  qed
qed

lemma Counter_and_getitem:
  assumes "distinct (map fst self)"
  shows "Counter_getitem (Counter_and self other) p =
     (if 0 < min (Counter_getitem self p) (Counter_getitem other p)
      then min (Counter_getitem self p) (Counter_getitem other p) else 0)"
proof -
  have "Counter_and self other = foldl (and_step other) [] self"
    by (simp add: Counter_and_def)
  moreover have "p \<notin> fst ` set self \<Longrightarrow> Counter_getitem self p = 0"
    by (rule Counter_getitem_notin)
  ultimately show ?thesis
    using and_fold_getitem [OF assms, of other "[]" p]
    by (auto simp: Counter_getitem_Nil)
qed

lemma and_fold_distinct:
  "distinct (map fst result) \<Longrightarrow> distinct (map fst (foldl (and_step other) result self))"
proof (induction self arbitrary: result)
  case Nil
  then show ?case by simp
next
  case (Cons e self)
  obtain elem cnt where e: "e = (elem, cnt)" by (cases e)
  have "distinct (map fst (and_step other result (elem, cnt)))"
    using Cons.prems by (simp add: and_step_def Let_def distinct_dict_setitem)
  then show ?case
    by (simp add: e Cons.IH)
qed

lemma distinct_Counter_and: "distinct (map fst (Counter_and self other))"
proof -
  have "Counter_and self other = foldl (and_step other) [] self"
    by (simp add: Counter_and_def)
  then show ?thesis
    by (simp add: and_fold_distinct)
qed

lemma count_list_replicate:
  "count_list (replicate n x) p = (if p = x then n else 0)"
  by (induction n) auto

lemma count_list_concat:
  "count_list (concat xss) p = sum_list (map (\<lambda>xs. count_list xs p) xss)"
  by (induction xss) auto

lemma count_list_Counter_elements:
  "distinct (map fst c) \<Longrightarrow>
   count_list (Counter_elements c) p = nat (Counter_getitem c p)"
proof (induction c)
  case Nil
  then show ?case by (simp add: Counter_elements_def Counter_getitem_def)
next
  case (Cons e c)
  obtain elem cnt where e: "e = (elem, cnt)" by (cases e)
  from Cons.prems e have notin: "elem \<notin> fst ` set c" and d: "distinct (map fst c)"
    by auto
  have el: "Counter_elements ((elem, cnt) # c) = replicate (nat cnt) elem @ Counter_elements c"
    by (simp add: Counter_elements_def)
  show ?case
  proof (cases "p = elem")
    case True
    with notin have "Counter_getitem c p = 0"
      by (simp add: Counter_getitem_notin)
    with True show ?thesis
      using Cons.IH [OF d] by (simp add: el count_list_replicate e Counter_getitem_def)
  next
    case False
    then show ?thesis
      using Cons.IH [OF d] by (simp add: el count_list_replicate e Counter_getitem_def)
  qed
qed

lemma tag_pairs_Cons:
  "tag_pairs ((name, values) # d) = map (\<lambda>v. (name, v)) values @ tag_pairs d"
  by (simp add: tag_pairs_def)

lemma defaultdict_append_Cons:
  "defaultdict_append ((k, vs) # d) name v =
     (if k = name then (k, vs @ [v]) # d else (k, vs) # defaultdict_append d name v)"
  by (simp add: defaultdict_append_def split: option.splits)

lemma mset_tag_pairs_defaultdict_append:
  "mset (tag_pairs (defaultdict_append d name v)) = add_mset (name, v) (mset (tag_pairs d))"
proof (induction d)
  case Nil
  then show ?case by (simp add: defaultdict_append_def tag_pairs_def)
next
  case (Cons e d)
  obtain k vs where e: "e = (k, vs)" by (cases e)
  show ?case
    by (simp add: e defaultdict_append_Cons tag_pairs_Cons Cons.IH)
qed

lemma distinct_defaultdict_append:
  "distinct (map fst d) \<Longrightarrow> distinct (map fst (defaultdict_append d name v))"
  by (simp add: defaultdict_append_def distinct_dict_setitem split: option.splits)

lemma fold_defaultdict_append:
  "mset (tag_pairs (foldl (\<lambda>tags (name, v). defaultdict_append tags name v) d ps))
     = mset (tag_pairs d) + mset ps
   \<and> (distinct (map fst d) \<longrightarrow>
       distinct (map fst (foldl (\<lambda>tags (name, v). defaultdict_append tags name v) d ps)))"
proof (induction ps arbitrary: d)
  case Nil
  then show ?case by simp
next
  case (Cons p ps)
  obtain name v where p: "p = (name, v)" by (cases p)
  show ?case
    by (simp add: p Cons.IH mset_tag_pairs_defaultdict_append distinct_defaultdict_append)
qed

lemma Tags_fold_distinct:
  "distinct (map fst (acc @ xs)) \<Longrightarrow>
   foldl (\<lambda>d (name, values). dict_setitem d name values) acc xs = acc @ xs"
proof (induction xs arbitrary: acc)
  case Nil
  then show ?case by simp
next
  case (Cons x xs)
  obtain name vs where x: "x = (name, vs)" by (cases x)
  from Cons.prems x have "name \<notin> fst ` set acc" by auto
  then have "dict_setitem acc name vs = acc @ [(name, vs)]"
    by (rule dict_setitem_new)
  moreover from Cons.prems have "distinct (map fst ((acc @ [x]) @ xs))" by simp
  ultimately show ?case
    using Cons.IH [of "acc @ [x]"] by (simp add: x)
qed

lemma Tags_distinct: "distinct (map fst xs) \<Longrightarrow> Tags xs = xs"
  using Tags_fold_distinct [of "[]" xs] by (simp add: Tags_def)

lemma Counter_and_nonneg:
  "distinct (map fst self) \<Longrightarrow> 0 \<le> Counter_getitem (Counter_and self other) p"
  by (simp add: Counter_and_getitem)

lemma Min_insert_min:
  "finite S \<Longrightarrow> Min (insert (min x y) S) = Min (insert x (insert y S))"
  by (cases "S = {}") (simp_all add: min.assoc)

lemma fold_Counter_and:
  "distinct (map fst a) \<Longrightarrow> 0 \<le> Counter_getitem a p \<Longrightarrow>
   distinct (map fst (foldl Counter_and a (map (\<lambda>c. Counter (tag_pairs c)) cs)))
   \<and> nat (Counter_getitem (foldl Counter_and a (map (\<lambda>c. Counter (tag_pairs c)) cs)) p)
       = Min (insert (nat (Counter_getitem a p)) ((\<lambda>c. count_list (tag_pairs c) p) ` set cs))"
proof (induction cs arbitrary: a)
  case Nil
  then show ?case by simp
next
  case (Cons c cs)
  let ?b = "Counter (tag_pairs c)"
  let ?a' = "Counter_and a ?b"
  have d': "distinct (map fst ?a')" by (rule distinct_Counter_and)
  have n': "0 \<le> Counter_getitem ?a' p"
    using Cons.prems(1) by (rule Counter_and_nonneg)
  have v: "nat (Counter_getitem ?a' p) = min (nat (Counter_getitem a p)) (count_list (tag_pairs c) p)"
    using Cons.prems by (simp add: Counter_and_getitem Counter_getitem_Counter min_def)
  show ?case
    using Cons.IH [OF d' n'] by (simp add: v Min_insert_min)
qed

text \<open>
  For a sized collection and for a non-empty iterator alike, \<open>compose\<close> returns the
  multiset intersection of the components' (name, value) pairs: every pair occurs in
  the result exactly as many times as the minimum of its numbers of occurrences in the
  components, so only if it occurs in every component. An empty sized collection gives
  the empty \<open>Tags\<close>.
\<close>

lemma compose_multiset_intersection:
  "compose (Sized []) = Inr (Tags []) \<and> Tags [] = []
   \<and> (iterate components_tags \<noteq> [] \<longrightarrow>
        (\<exists>composite. compose components_tags = Inr composite
           \<and> distinct (map fst composite)
           \<and> (\<forall>pair. count_list (tag_pairs composite) pair
                 = Min ((\<lambda>c. count_list (tag_pairs c) pair) ` set (iterate components_tags)))
           \<and> (\<forall>pair. pair \<in> set (tag_pairs composite)
                 \<longleftrightarrow> (\<forall>c \<in> set (iterate components_tags). pair \<in> set (tag_pairs c)))))"
proof (intro conjI impI)
  show "compose (Sized []) = Inr (Tags [])"
    by (simp add: compose_def)
next
  show "Tags [] = []"
    by (simp add: Tags_def)
next
  assume ne: "iterate components_tags \<noteq> []"
  then have tr: "truth components_tags"
    by (cases components_tags) simp_all
  from ne obtain c cs where cs: "iterate components_tags = c # cs"
    by (cases "iterate components_tags") auto
  define common where
    "common = foldl Counter_and (Counter (tag_pairs c)) (map (\<lambda>c. Counter (tag_pairs c)) cs)"
  define built where
    "built = foldl (\<lambda>tags (name, v). defaultdict_append tags name v) [] (Counter_elements common)"
  have dc: "distinct (map fst common)"
    unfolding common_def
    using fold_Counter_and [of "Counter (tag_pairs c)" _ cs]
    by (simp add: distinct_Counter Counter_getitem_Counter)
  have cnt: "nat (Counter_getitem common p)
             = Min ((\<lambda>c. count_list (tag_pairs c) p) ` set (iterate components_tags))" for p
    unfolding common_def cs
    using fold_Counter_and [of "Counter (tag_pairs c)" p cs]
    by (simp add: distinct_Counter Counter_getitem_Counter)
  have db: "distinct (map fst built)"
    unfolding built_def
    using fold_defaultdict_append [of "[]" "Counter_elements common"] by simp
  have mb: "mset (tag_pairs built) = mset (Counter_elements common)"
    unfolding built_def
    using fold_defaultdict_append [of "[]" "Counter_elements common"]
    by (simp add: tag_pairs_def)
  have res: "compose components_tags = Inr built"
    by (simp add: compose_def tr cs common_def built_def
        Tags_distinct [OF db [unfolded built_def common_def]])
  have count: "count_list (tag_pairs built) p
               = Min ((\<lambda>c. count_list (tag_pairs c) p) ` set (iterate components_tags))" for p
  proof -
    have "count_list (tag_pairs built) p = count (mset (tag_pairs built)) p"
      by (simp add: count_mset)
    also have "\<dots> = count_list (Counter_elements common) p"
      by (simp add: mb count_mset)
    also have "\<dots> = nat (Counter_getitem common p)"
      by (rule count_list_Counter_elements [OF dc])
    finally show ?thesis by (simp add: cnt)
  qed
  have mem: "p \<in> set (tag_pairs built)
      \<longleftrightarrow> (\<forall>c \<in> set (iterate components_tags). p \<in> set (tag_pairs c))" for p
  proof -
    have "p \<in> set (tag_pairs built) \<longleftrightarrow> 0 < count_list (tag_pairs built) p"
      using count_list_0_iff [of "tag_pairs built" p] by auto
    also have "\<dots> \<longleftrightarrow> (\<forall>c \<in> set (iterate components_tags). 0 < count_list (tag_pairs c) p)"
      using ne by (simp add: count Min_gr_iff)
    also have "\<dots> \<longleftrightarrow> (\<forall>c \<in> set (iterate components_tags). p \<in> set (tag_pairs c))"
      using count_list_0_iff [of _ p] by (metis gr0I less_numeral_extra(3))
    finally show ?thesis .
  qed
  show "\<exists>composite. compose components_tags = Inr composite
           \<and> distinct (map fst composite)
           \<and> (\<forall>pair. count_list (tag_pairs composite) pair
                 = Min ((\<lambda>c. count_list (tag_pairs c) pair) ` set (iterate components_tags)))
           \<and> (\<forall>pair. pair \<in> set (tag_pairs composite)
                 \<longleftrightarrow> (\<forall>c \<in> set (iterate components_tags). pair \<in> set (tag_pairs c)))"
    using res db count mem by blast
qed

lemma compose_examples:
  "compose (Sized [[(''a'', [''x'', ''x''])], [(''a'', [''x''])]]) = Inr [(''a'', [''x''])]
   \<and> compose (Sized [[(''a'', [''x''])], [(''b'', [''y''])]]) = Inr []
   \<and> compose (Iterator [[(''a'', [''x'', ''x''])], [(''a'', [''x''])]]) = Inr [(''a'', [''x''])]"
  by code_simp

text \<open>
  Claim C1: \<open>compose\<close> returns the multiset intersection of the components' pairs,
  and composing zero components returns the empty \<open>Tags\<close>. The second part fails for
  an empty iterator: it is true, so the guard \<open>if not components_tags\<close> does not
  return, no counter is built, and \<open>functools.reduce\<close> raises \<open>TypeError\<close> on the
  empty list of counters. An empty list passes the guard and gives the empty \<open>Tags\<close>.
\<close>

theorem compose_empty_iterator:
  "iterate (Iterator ([] :: Tags list)) = []
   \<and> compose (Iterator []) = Inl TypeError
   \<and> compose (Sized []) = Inr []"
  by (simp add: compose_def Tags_def)

section \<open>The linear play order\<close>

lemma py_enumerate_snoc:
  "py_enumerate (xs @ [x]) = py_enumerate xs @ [(int (length xs), x)]"
  by (simp add: py_enumerate_def enumerate_append_eq)

lemma token_index_snoc:
  "token_index (units @ [u]) =
     dict_setitem (token_index units) (token (track u)) (int (length units))"
  by (simp add: token_index_def py_enumerate_snoc)

lemma token_index_Nil: "token_index [] = []"
  by (simp add: token_index_def py_enumerate_def)

lemma token_index_last_occurrence:
  "i < length units \<Longrightarrow> token (track (units ! i)) = tok \<Longrightarrow>
   (\<forall>j. i < j \<and> j < length units \<longrightarrow> token (track (units ! j)) \<noteq> tok) \<Longrightarrow>
   map_of (token_index units) tok = Some (int i)"
proof (induction units rule: rev_induct)
  case Nil
  then show ?case by simp
next
  case (snoc u units)
  show ?case
  proof (cases "i = length units")
    case True
    with snoc.prems(2) show ?thesis
      by (simp add: token_index_snoc map_of_dict_setitem)
  next
    case False
    with snoc.prems(1) have i: "i < length units" by simp
    with snoc.prems(2) have t: "token (track (units ! i)) = tok"
      by (simp add: nth_append)
    have later: "\<forall>j. i < j \<and> j < length units \<longrightarrow> token (track (units ! j)) \<noteq> tok"
    proof (intro allI impI)
      fix j assume j: "i < j \<and> j < length units"
      with snoc.prems(3) have "token (track ((units @ [u]) ! j)) \<noteq> tok" by simp
      with j show "token (track (units ! j)) \<noteq> tok" by (simp add: nth_append)
    qed
    from snoc.prems(3) have "i < length units \<and> length units < length (units @ [u])
        \<longrightarrow> token (track ((units @ [u]) ! length units)) \<noteq> tok"
      by (rule spec)
    with i have "token (track u) \<noteq> tok" by simp
    then show ?thesis
      using snoc.IH [OF i t later]
      by (auto simp: token_index_snoc map_of_dict_setitem)
  qed
qed

lemma token_index_found:
  "map_of (token_index units) tok = Some index \<Longrightarrow>
   0 \<le> index \<and> index < int (length units) \<and> token (track (units ! nat index)) = tok"
proof (induction units rule: rev_induct)
  case Nil
  then show ?case by (simp add: token_index_Nil)
next
  case (snoc u units)
  show ?case
  proof (cases "token (track u) = tok")
    case True
    with snoc.prems have "index = int (length units)"
      by (simp add: token_index_snoc map_of_dict_setitem)
    with True show ?thesis by simp
  next
    case False
    with snoc.prems have "map_of (token_index units) tok = Some index"
      by (auto simp: token_index_snoc map_of_dict_setitem)
    from snoc.IH [OF this] show ?thesis
      by (auto simp: nth_append)
  qed
qed

lemma token_index_missing:
  "tok \<notin> set (map (\<lambda>unit. token (track unit)) units) \<Longrightarrow>
   map_of (token_index units) tok = None"
  by (induction units rule: rev_induct)
    (auto simp: token_index_Nil token_index_snoc map_of_dict_setitem)

lemma handle_stop_error_result:
  "function args RAISE_STOP_ERROR = Inr result \<Longrightarrow>
   handle_stop_error function args error_policy = (Inr result, [])"
  by (simp add: handle_stop_error_def)

lemma handle_stop_error_raise:
  "function args RAISE_STOP_ERROR = Inl (StopError message) \<Longrightarrow>
   handle_stop_error function args (Some RAISE_STOP_ERROR) = (Inl (StopError message), [])"
  by (simp add: handle_stop_error_def)

lemma handle_stop_error_return_none:
  "function args RAISE_STOP_ERROR = Inl (StopError message) \<Longrightarrow>
   error_policy = Some RETURN_NONE \<or> error_policy = None \<Longrightarrow>
   handle_stop_error function args error_policy
     = (Inr None, [Log_exception ''Stopping due to error.'' (StopError message)])"
  by (auto simp: handle_stop_error_def DEFAULT_def)

lemma unit_in_same_entry_found:
  "playable_units (playlist self) (playlist_entry current) = Inr units \<Longrightarrow>
   dict_getitem (token_index units) (token (track current)) = Inr index \<Longrightarrow>
   unit_in_same_entry self (Some current) offset =
     Inr (if 0 \<le> index + offset \<and> index + offset < int (length units)
          then Some (units ! nat (index + offset)) else None)"
  by (simp add: unit_in_same_entry_def)

lemma unit_in_same_entry_no_entry:
  "playable_units (playlist self) (playlist_entry current) = Inl KeyError \<Longrightarrow>
   unit_in_same_entry self (Some current) offset
     = Inl (StopError Current_playlist_entry_not_found)"
  by (simp add: unit_in_same_entry_def)

text \<open>
  Claim C2: for a current unit whose playlist entry resolves to \<open>units\<close> and whose
  token the lookup finds at \<open>index\<close>, \<open>next\<close> (offset 1) and \<open>previous\<close>
  (offset -1) return, under every error policy, the unit at \<open>index + offset\<close> when
  that lies in \<open>0 ..< len(units)\<close> and absent otherwise; \<open>previous\<close> at index 0 and
  \<open>next\<close> at the last index return absent. The index found is a position of
  \<open>units\<close> that holds the token of the current track.
\<close>

theorem LinearEntry_step_within_entry:
  assumes "playable_units (playlist self) (playlist_entry current) = Inr units"
    and "dict_getitem (token_index units) (token (track current)) = Inr index"
  shows "LinearEntry_next self (Some current) error_policy =
           (Inr (if 0 \<le> index + 1 \<and> index + 1 < int (length units)
                 then Some (units ! nat (index + 1)) else None), [])
       \<and> LinearEntry_previous self (Some current) error_policy =
           (Inr (if 0 \<le> index + (- 1) \<and> index + (- 1) < int (length units)
                 then Some (units ! nat (index + (- 1))) else None), [])
       \<and> (index = 0 \<longrightarrow> LinearEntry_previous self (Some current) error_policy = (Inr None, []))
       \<and> (index = int (length units) - 1 \<longrightarrow>
            LinearEntry_next self (Some current) error_policy = (Inr None, []))
       \<and> 0 \<le> index \<and> index < int (length units)
       \<and> token (track (units ! nat index)) = token (track current)"
proof -
  from assms(2) have "map_of (token_index units) (token (track current)) = Some index"
    by (simp add: dict_getitem_def split: option.splits)
  then have found: "0 \<le> index \<and> index < int (length units)
      \<and> token (track (units ! nat index)) = token (track current)"
    by (rule token_index_found)
  have n: "next_function (self, Some current) RAISE_STOP_ERROR =
             Inr (if 0 \<le> index + 1 \<and> index + 1 < int (length units)
                  then Some (units ! nat (index + 1)) else None)"
    unfolding next_function_def using unit_in_same_entry_found [OF assms, of 1] by simp
  have p: "previous_function (self, Some current) RAISE_STOP_ERROR =
             Inr (if 0 \<le> index + (- 1) \<and> index + (- 1) < int (length units)
                  then Some (units ! nat (index + (- 1))) else None)"
    unfolding previous_function_def using unit_in_same_entry_found [OF assms, of "- 1"] by simp
  have n': "LinearEntry_next self (Some current) error_policy =
           (Inr (if 0 \<le> index + 1 \<and> index + 1 < int (length units)
                 then Some (units ! nat (index + 1)) else None), [])"
    unfolding LinearEntry_next_def using n by (rule handle_stop_error_result)
  have p': "LinearEntry_previous self (Some current) error_policy =
           (Inr (if 0 \<le> index + (- 1) \<and> index + (- 1) < int (length units)
                 then Some (units ! nat (index + (- 1))) else None), [])"
    unfolding LinearEntry_previous_def using p by (rule handle_stop_error_result)
  show ?thesis
    unfolding n' p' using found by simp
qed

theorem LinearEntry_step_within_entry_witness:
  "LinearEntry_next \<lparr>playlist = [0 \<mapsto> [\<lparr>track = \<lparr>token = ''a''\<rparr>, playlist_entry = 0::nat\<rparr>,
        \<lparr>track = \<lparr>token = ''b''\<rparr>, playlist_entry = 0::nat\<rparr>]]\<rparr>
      (Some \<lparr>track = \<lparr>token = ''a''\<rparr>, playlist_entry = 0::nat\<rparr>) None
     = (Inr (Some \<lparr>track = \<lparr>token = ''b''\<rparr>, playlist_entry = 0::nat\<rparr>), [])
   \<and> LinearEntry_previous \<lparr>playlist = [0 \<mapsto> [\<lparr>track = \<lparr>token = ''a''\<rparr>, playlist_entry = 0::nat\<rparr>,
        \<lparr>track = \<lparr>token = ''b''\<rparr>, playlist_entry = 0::nat\<rparr>]]\<rparr>
      (Some \<lparr>track = \<lparr>token = ''a''\<rparr>, playlist_entry = 0::nat\<rparr>) None
     = (Inr None, [])
   \<and> LinearEntry_next \<lparr>playlist = [0 \<mapsto> [\<lparr>track = \<lparr>token = ''a''\<rparr>, playlist_entry = 0::nat\<rparr>,
        \<lparr>track = \<lparr>token = ''b''\<rparr>, playlist_entry = 0::nat\<rparr>]]\<rparr>
      (Some \<lparr>track = \<lparr>token = ''b''\<rparr>, playlist_entry = 0::nat\<rparr>) None
     = (Inr None, [])
   \<and> LinearEntry_previous \<lparr>playlist = [0 \<mapsto> [\<lparr>track = \<lparr>token = ''a''\<rparr>, playlist_entry = 0::nat\<rparr>,
        \<lparr>track = \<lparr>token = ''b''\<rparr>, playlist_entry = 0::nat\<rparr>]]\<rparr>
      (Some \<lparr>track = \<lparr>token = ''b''\<rparr>, playlist_entry = 0::nat\<rparr>) None
     = (Inr (Some \<lparr>track = \<lparr>token = ''a''\<rparr>, playlist_entry = 0::nat\<rparr>), [])"
proof -
  let ?units = "[\<lparr>track = \<lparr>token = ''a''\<rparr>, playlist_entry = 0::nat\<rparr>,
      \<lparr>track = \<lparr>token = ''b''\<rparr>, playlist_entry = 0::nat\<rparr>]"
  let ?order = "\<lparr>playlist = [0 \<mapsto> [\<lparr>track = \<lparr>token = ''a''\<rparr>, playlist_entry = 0::nat\<rparr>,
        \<lparr>track = \<lparr>token = ''b''\<rparr>, playlist_entry = 0::nat\<rparr>]]\<rparr>"
  have u: "playable_units (playlist ?order) (0::nat) = Inr ?units"
    by (simp add: playable_units_def)
  have ti: "token_index ?units = [(''a'', 0), (''b'', 1)]"
    by (simp add: token_index_def py_enumerate_def)
  have a: "dict_getitem (token_index ?units) ''a'' = Inr 0"
    and b: "dict_getitem (token_index ?units) ''b'' = Inr 1"
    by (simp_all add: ti dict_getitem_def)
  show ?thesis
    using LinearEntry_step_within_entry [of ?order "\<lparr>track = \<lparr>token = ''a''\<rparr>, playlist_entry = 0::nat\<rparr>" ?units 0 None]
      LinearEntry_step_within_entry [of ?order "\<lparr>track = \<lparr>token = ''b''\<rparr>, playlist_entry = 0::nat\<rparr>" ?units 1 None]
      u a b
    by simp
qed

lemma handle_stop_error_default_hides_StopError:
  "error_policy = Some RETURN_NONE \<or> error_policy = None \<Longrightarrow>
   fst (handle_stop_error function args error_policy) \<noteq> Inl (StopError message)"
  by (auto simp: handle_stop_error_def DEFAULT_def split: sum.splits exception.splits)

text \<open>
  Claim C3: when the playlist entry of the current unit is not in the playlist,
  \<open>next\<close> and \<open>previous\<close> raise \<open>StopError\<close> under \<open>RAISE_STOP_ERROR\<close>, and log
  and return absent under \<open>RETURN_NONE\<close> or with no policy given. With no policy
  given, no call of either raises \<open>StopError\<close>.
\<close>

theorem LinearEntry_entry_not_found:
  "(playable_units (playlist self) (playlist_entry current) = Inl KeyError \<longrightarrow>
      LinearEntry_next self (Some current) (Some RAISE_STOP_ERROR)
        = (Inl (StopError Current_playlist_entry_not_found), [])
      \<and> LinearEntry_next self (Some current) (Some RETURN_NONE)
        = (Inr None, [Log_exception ''Stopping due to error.''
                        (StopError Current_playlist_entry_not_found)])
      \<and> LinearEntry_next self (Some current) None
        = (Inr None, [Log_exception ''Stopping due to error.''
                        (StopError Current_playlist_entry_not_found)])
      \<and> LinearEntry_previous self (Some current) (Some RAISE_STOP_ERROR)
        = (Inl (StopError Current_playlist_entry_not_found), [])
      \<and> LinearEntry_previous self (Some current) (Some RETURN_NONE)
        = (Inr None, [Log_exception ''Stopping due to error.''
                        (StopError Current_playlist_entry_not_found)])
      \<and> LinearEntry_previous self (Some current) None
        = (Inr None, [Log_exception ''Stopping due to error.''
                        (StopError Current_playlist_entry_not_found)]))
   \<and> fst (LinearEntry_next self any_current None) \<noteq> Inl (StopError message)
   \<and> fst (LinearEntry_previous self any_current None) \<noteq> Inl (StopError message)"
proof (intro conjI impI)
  assume h: "playable_units (playlist self) (playlist_entry current) = Inl KeyError"
  have n: "next_function (self, Some current) RAISE_STOP_ERROR
             = Inl (StopError Current_playlist_entry_not_found)"
    by (simp add: next_function_def unit_in_same_entry_no_entry [OF h])
  have p: "previous_function (self, Some current) RAISE_STOP_ERROR
             = Inl (StopError Current_playlist_entry_not_found)"
    by (simp add: previous_function_def unit_in_same_entry_no_entry [OF h])
  show "LinearEntry_next self (Some current) (Some RAISE_STOP_ERROR)
        = (Inl (StopError Current_playlist_entry_not_found), [])"
    unfolding LinearEntry_next_def using n by (rule handle_stop_error_raise)
  show "LinearEntry_next self (Some current) (Some RETURN_NONE)
        = (Inr None, [Log_exception ''Stopping due to error.''
                        (StopError Current_playlist_entry_not_found)])"
    unfolding LinearEntry_next_def using n by (rule handle_stop_error_return_none) simp
  show "LinearEntry_next self (Some current) None
        = (Inr None, [Log_exception ''Stopping due to error.''
                        (StopError Current_playlist_entry_not_found)])"
    unfolding LinearEntry_next_def using n by (rule handle_stop_error_return_none) simp
  show "LinearEntry_previous self (Some current) (Some RAISE_STOP_ERROR)
        = (Inl (StopError Current_playlist_entry_not_found), [])"
    unfolding LinearEntry_previous_def using p by (rule handle_stop_error_raise)
  show "LinearEntry_previous self (Some current) (Some RETURN_NONE)
        = (Inr None, [Log_exception ''Stopping due to error.''
                        (StopError Current_playlist_entry_not_found)])"
    unfolding LinearEntry_previous_def using p by (rule handle_stop_error_return_none) simp
  show "LinearEntry_previous self (Some current) None
        = (Inr None, [Log_exception ''Stopping due to error.''
                        (StopError Current_playlist_entry_not_found)])"
    unfolding LinearEntry_previous_def using p by (rule handle_stop_error_return_none) simp
next
  show "fst (LinearEntry_next self any_current None) \<noteq> Inl (StopError message)"
    unfolding LinearEntry_next_def
    by (rule handle_stop_error_default_hides_StopError) simp
next
  show "fst (LinearEntry_previous self any_current None) \<noteq> Inl (StopError message)"
    unfolding LinearEntry_previous_def
    by (rule handle_stop_error_default_hides_StopError) simp
qed

theorem LinearEntry_entry_not_found_witness:
  "playable_units (playlist \<lparr>playlist = (Map.empty :: (string, nat) Playlist)\<rparr>) (0::nat) = Inl KeyError
   \<and> LinearEntry_next \<lparr>playlist = (Map.empty :: (string, nat) Playlist)\<rparr>
        (Some \<lparr>track = \<lparr>token = ''a''\<rparr>, playlist_entry = 0::nat\<rparr>) (Some RAISE_STOP_ERROR)
        = (Inl (StopError Current_playlist_entry_not_found), [])
   \<and> LinearEntry_next \<lparr>playlist = (Map.empty :: (string, nat) Playlist)\<rparr>
        (Some \<lparr>track = \<lparr>token = ''a''\<rparr>, playlist_entry = 0::nat\<rparr>) None
        = (Inr None, [Log_exception ''Stopping due to error.''
                        (StopError Current_playlist_entry_not_found)])
   \<and> LinearEntry_previous \<lparr>playlist = (Map.empty :: (string, nat) Playlist)\<rparr>
        (Some \<lparr>track = \<lparr>token = ''a''\<rparr>, playlist_entry = 0::nat\<rparr>) (Some RAISE_STOP_ERROR)
        = (Inl (StopError Current_playlist_entry_not_found), [])
   \<and> LinearEntry_previous \<lparr>playlist = (Map.empty :: (string, nat) Playlist)\<rparr>
        (Some \<lparr>track = \<lparr>token = ''a''\<rparr>, playlist_entry = 0::nat\<rparr>) None
        = (Inr None, [Log_exception ''Stopping due to error.''
                        (StopError Current_playlist_entry_not_found)])"
proof -
  have h: "playable_units (playlist \<lparr>playlist = (Map.empty :: (string, nat) Playlist)\<rparr>) (0::nat) = Inl KeyError"
    by (simp add: playable_units_def)
  show ?thesis
    using LinearEntry_entry_not_found
        [of "\<lparr>playlist = (Map.empty :: (string, nat) Playlist)\<rparr>" "\<lparr>track = \<lparr>token = ''a''\<rparr>, playlist_entry = 0::nat\<rparr>"
          "Some \<lparr>track = \<lparr>token = ''a''\<rparr>, playlist_entry = 0::nat\<rparr>" Current_playlist_entry_not_found] h
    by simp
qed

lemma handle_stop_error_same_result:
  "handle_stop_error function args (Some RAISE_STOP_ERROR) = (Inr result, lg) \<Longrightarrow>
   handle_stop_error function args error_policy = (Inr result, lg)"
  by (auto simp: handle_stop_error_def split: sum.splits exception.splits)

text \<open>
  Claim C8: whenever \<open>next\<close> or \<open>previous\<close> returns a value under
  \<open>RAISE_STOP_ERROR\<close>, it returns the same value under \<open>RETURN_NONE\<close> and with no
  policy given; the undecorated functions ignore their \<open>error_policy\<close> argument.
\<close>

theorem LinearEntry_result_independent_of_policy:
  "(LinearEntry_next self current (Some RAISE_STOP_ERROR) = (Inr result, lg) \<longrightarrow>
      LinearEntry_next self current (Some RETURN_NONE) = (Inr result, lg)
      \<and> LinearEntry_next self current None = (Inr result, lg))
   \<and> (LinearEntry_previous self current (Some RAISE_STOP_ERROR) = (Inr result, lg) \<longrightarrow>
      LinearEntry_previous self current (Some RETURN_NONE) = (Inr result, lg)
      \<and> LinearEntry_previous self current None = (Inr result, lg))
   \<and> next_function (self, current) error_policy
       = next_function (self, current) RAISE_STOP_ERROR
   \<and> previous_function (self, current) error_policy
       = previous_function (self, current) RAISE_STOP_ERROR"
  unfolding LinearEntry_next_def LinearEntry_previous_def
  by (auto simp: next_function_def previous_function_def
      intro: handle_stop_error_same_result)

theorem LinearEntry_result_independent_of_policy_witness:
  "LinearEntry_next \<lparr>playlist = [0 \<mapsto> [\<lparr>track = \<lparr>token = ''a''\<rparr>, playlist_entry = 0::nat\<rparr>,
        \<lparr>track = \<lparr>token = ''b''\<rparr>, playlist_entry = 0::nat\<rparr>]]\<rparr>
      (Some \<lparr>track = \<lparr>token = ''a''\<rparr>, playlist_entry = 0::nat\<rparr>) (Some RAISE_STOP_ERROR)
     = (Inr (Some \<lparr>track = \<lparr>token = ''b''\<rparr>, playlist_entry = 0::nat\<rparr>), [])
   \<and> LinearEntry_next \<lparr>playlist = [0 \<mapsto> [\<lparr>track = \<lparr>token = ''a''\<rparr>, playlist_entry = 0::nat\<rparr>,
        \<lparr>track = \<lparr>token = ''b''\<rparr>, playlist_entry = 0::nat\<rparr>]]\<rparr>
      (Some \<lparr>track = \<lparr>token = ''a''\<rparr>, playlist_entry = 0::nat\<rparr>) (Some RETURN_NONE)
     = (Inr (Some \<lparr>track = \<lparr>token = ''b''\<rparr>, playlist_entry = 0::nat\<rparr>), [])
   \<and> LinearEntry_previous \<lparr>playlist = [0 \<mapsto> [\<lparr>track = \<lparr>token = ''a''\<rparr>, playlist_entry = 0::nat\<rparr>,
        \<lparr>track = \<lparr>token = ''b''\<rparr>, playlist_entry = 0::nat\<rparr>]]\<rparr>
      (Some \<lparr>track = \<lparr>token = ''b''\<rparr>, playlist_entry = 0::nat\<rparr>) (Some RAISE_STOP_ERROR)
     = (Inr (Some \<lparr>track = \<lparr>token = ''a''\<rparr>, playlist_entry = 0::nat\<rparr>), [])
   \<and> LinearEntry_previous \<lparr>playlist = [0 \<mapsto> [\<lparr>track = \<lparr>token = ''a''\<rparr>, playlist_entry = 0::nat\<rparr>,
        \<lparr>track = \<lparr>token = ''b''\<rparr>, playlist_entry = 0::nat\<rparr>]]\<rparr>
      (Some \<lparr>track = \<lparr>token = ''b''\<rparr>, playlist_entry = 0::nat\<rparr>) (Some RETURN_NONE)
     = (Inr (Some \<lparr>track = \<lparr>token = ''a''\<rparr>, playlist_entry = 0::nat\<rparr>), [])"
proof -
  let ?order = "\<lparr>playlist = [0 \<mapsto> [\<lparr>track = \<lparr>token = ''a''\<rparr>, playlist_entry = 0::nat\<rparr>,
        \<lparr>track = \<lparr>token = ''b''\<rparr>, playlist_entry = 0::nat\<rparr>]]\<rparr>"
  have ti: "token_index [\<lparr>track = \<lparr>token = ''a''\<rparr>, playlist_entry = 0::nat\<rparr>,
      \<lparr>track = \<lparr>token = ''b''\<rparr>, playlist_entry = 0::nat\<rparr>] = [(''a'', 0), (''b'', 1)]"
    by (simp add: token_index_def py_enumerate_def)
  have n: "LinearEntry_next ?order (Some \<lparr>track = \<lparr>token = ''a''\<rparr>, playlist_entry = 0::nat\<rparr>) (Some RAISE_STOP_ERROR)
           = (Inr (Some \<lparr>track = \<lparr>token = ''b''\<rparr>, playlist_entry = 0::nat\<rparr>), [])"
    by (simp add: LinearEntry_next_def handle_stop_error_def next_function_def
        unit_in_same_entry_def playable_units_def ti dict_getitem_def)
  have p: "LinearEntry_previous ?order (Some \<lparr>track = \<lparr>token = ''b''\<rparr>, playlist_entry = 0::nat\<rparr>) (Some RAISE_STOP_ERROR)
           = (Inr (Some \<lparr>track = \<lparr>token = ''a''\<rparr>, playlist_entry = 0::nat\<rparr>), [])"
    by (simp add: LinearEntry_previous_def handle_stop_error_def previous_function_def
        unit_in_same_entry_def playable_units_def ti dict_getitem_def)
  show ?thesis
    using LinearEntry_result_independent_of_policy
        [of ?order "Some \<lparr>track = \<lparr>token = ''a''\<rparr>, playlist_entry = 0::nat\<rparr>" "Some \<lparr>track = \<lparr>token = ''b''\<rparr>, playlist_entry = 0::nat\<rparr>" "[]"]
      LinearEntry_result_independent_of_policy
        [of ?order "Some \<lparr>track = \<lparr>token = ''b''\<rparr>, playlist_entry = 0::nat\<rparr>" "Some \<lparr>track = \<lparr>token = ''a''\<rparr>, playlist_entry = 0::nat\<rparr>" "[]"]
      n p
    by blast
qed

text \<open>
  Claim C9: when the token of the current track occurs in the units of its entry, with
  \<open>i\<close> the position of its last occurrence, the lookup yields \<open>i\<close>, and \<open>next\<close> and
  \<open>previous\<close> step from \<open>i\<close>.
\<close>

theorem LinearEntry_steps_from_last_occurrence:
  assumes "playable_units (playlist self) (playlist_entry current) = Inr units"
    and "i < length units"
    and "token (track (units ! i)) = token (track current)"
    and "\<forall>j. i < j \<and> j < length units \<longrightarrow>
           token (track (units ! j)) \<noteq> token (track current)"
  shows "dict_getitem (token_index units) (token (track current)) = Inr (int i)
       \<and> LinearEntry_next self (Some current) error_policy =
           (Inr (if i + 1 < length units then Some (units ! (i + 1)) else None), [])
       \<and> LinearEntry_previous self (Some current) error_policy =
           (Inr (if 0 < i then Some (units ! (i - 1)) else None), [])"
proof -
  have idx: "dict_getitem (token_index units) (token (track current)) = Inr (int i)"
    using token_index_last_occurrence [OF assms(2) assms(3) assms(4)]
    by (simp add: dict_getitem_def)
  have n: "next_function (self, Some current) RAISE_STOP_ERROR =
             Inr (if i + 1 < length units then Some (units ! (i + 1)) else None)"
    unfolding next_function_def
    using unit_in_same_entry_found [OF assms(1) idx, of 1]
    by (simp add: nat_add_distrib)
  have p: "previous_function (self, Some current) RAISE_STOP_ERROR =
             Inr (if 0 < i then Some (units ! (i - 1)) else None)"
    unfolding previous_function_def
    using unit_in_same_entry_found [OF assms(1) idx, of "- 1"] assms(2)
    by (auto simp: nat_diff_distrib')
  show ?thesis
    using idx handle_stop_error_result [of next_function, OF n]
      handle_stop_error_result [of previous_function, OF p]
    by (simp add: LinearEntry_next_def LinearEntry_previous_def)
qed

theorem LinearEntry_steps_from_last_occurrence_witness:
  "LinearEntry_next \<lparr>playlist = [0 \<mapsto> [\<lparr>track = \<lparr>token = ''a''\<rparr>, playlist_entry = 0::nat\<rparr>,
        \<lparr>track = \<lparr>token = ''b''\<rparr>, playlist_entry = 0::nat\<rparr>,
        \<lparr>track = \<lparr>token = ''a''\<rparr>, playlist_entry = 0::nat\<rparr>,
        \<lparr>track = \<lparr>token = ''c''\<rparr>, playlist_entry = 0::nat\<rparr>]]\<rparr>
      (Some \<lparr>track = \<lparr>token = ''a''\<rparr>, playlist_entry = 0::nat\<rparr>) None
     = (Inr (Some \<lparr>track = \<lparr>token = ''c''\<rparr>, playlist_entry = 0::nat\<rparr>), [])
   \<and> LinearEntry_previous \<lparr>playlist = [0 \<mapsto> [\<lparr>track = \<lparr>token = ''a''\<rparr>, playlist_entry = 0::nat\<rparr>,
        \<lparr>track = \<lparr>token = ''b''\<rparr>, playlist_entry = 0::nat\<rparr>,
        \<lparr>track = \<lparr>token = ''a''\<rparr>, playlist_entry = 0::nat\<rparr>,
        \<lparr>track = \<lparr>token = ''c''\<rparr>, playlist_entry = 0::nat\<rparr>]]\<rparr>
      (Some \<lparr>track = \<lparr>token = ''a''\<rparr>, playlist_entry = 0::nat\<rparr>) None
     = (Inr (Some \<lparr>track = \<lparr>token = ''b''\<rparr>, playlist_entry = 0::nat\<rparr>), [])"
proof -
  let ?units = "[\<lparr>track = \<lparr>token = ''a''\<rparr>, playlist_entry = 0::nat\<rparr>,
      \<lparr>track = \<lparr>token = ''b''\<rparr>, playlist_entry = 0::nat\<rparr>,
      \<lparr>track = \<lparr>token = ''a''\<rparr>, playlist_entry = 0::nat\<rparr>,
      \<lparr>track = \<lparr>token = ''c''\<rparr>, playlist_entry = 0::nat\<rparr>]"
  let ?order = "\<lparr>playlist = [0 \<mapsto> [\<lparr>track = \<lparr>token = ''a''\<rparr>, playlist_entry = 0::nat\<rparr>,
        \<lparr>track = \<lparr>token = ''b''\<rparr>, playlist_entry = 0::nat\<rparr>,
        \<lparr>track = \<lparr>token = ''a''\<rparr>, playlist_entry = 0::nat\<rparr>,
        \<lparr>track = \<lparr>token = ''c''\<rparr>, playlist_entry = 0::nat\<rparr>]]\<rparr>"
  have u: "playable_units (playlist ?order) (playlist_entry \<lparr>track = \<lparr>token = ''a''\<rparr>, playlist_entry = 0::nat\<rparr>) = Inr ?units"
    by (simp add: playable_units_def)
  have later: "\<forall>j. 2 < j \<and> j < length ?units \<longrightarrow>
      token (track (?units ! j)) \<noteq> token (track \<lparr>track = \<lparr>token = ''a''\<rparr>, playlist_entry = 0::nat\<rparr>)"
  proof (intro allI impI)
    fix j :: nat
    assume "2 < j \<and> j < length ?units"
    then have "j = 3" by simp
    then show "token (track (?units ! j)) \<noteq> token (track \<lparr>track = \<lparr>token = ''a''\<rparr>, playlist_entry = 0::nat\<rparr>)" by simp
  qed
  show ?thesis
    using LinearEntry_steps_from_last_occurrence [of ?order "\<lparr>track = \<lparr>token = ''a''\<rparr>, playlist_entry = 0::nat\<rparr>" ?units 2 None, OF u _ _ later]
    by simp
qed

section \<open>The screenshot harness\<close>



















text \<open>
  The other conditions are needed as well. The call raises when a name on the way to
  the directory is a regular file, when \<open>screenshots\<close> is a regular file, when access
  to \<open>screenshots\<close> is refused, when the screenshot name has a \<open>/\<close> in it, and when
  a directory is in the place of the image.
\<close>

lemma register_widget_other_failures:
  "register_widget id ''mod'' ''shot'' ''image''
      (\<lparr>environ = [''TEST_ARTIFACT_DIR'' \<mapsto> ''/f/artifacts''], cwd = [],
        files = [[''f''] \<mapsto> File ''text''],
        refused = Map.empty\<rparr> :: string World)
     = (Inl NotADirectoryError,
      \<lparr>environ = [''TEST_ARTIFACT_DIR'' \<mapsto> ''/f/artifacts''], cwd = [],
        files = [[''f''] \<mapsto> File ''text''],
        refused = Map.empty\<rparr>)
   \<and> register_widget id ''mod'' ''shot'' ''image''
      (\<lparr>environ = [''TEST_ARTIFACT_DIR'' \<mapsto> ''/artifacts''], cwd = [],
        files = [[''artifacts''] \<mapsto> Directory,
                 [''artifacts'', ''screenshots''] \<mapsto> File ''text''],
        refused = Map.empty\<rparr> :: string World)
     = (Inl FileExistsError,
      \<lparr>environ = [''TEST_ARTIFACT_DIR'' \<mapsto> ''/artifacts''], cwd = [],
        files = [[''artifacts''] \<mapsto> Directory,
                 [''artifacts'', ''screenshots''] \<mapsto> File ''text''],
        refused = Map.empty\<rparr>)
   \<and> register_widget id ''mod'' ''shot'' ''image''
      (\<lparr>environ = [''TEST_ARTIFACT_DIR'' \<mapsto> ''/artifacts''], cwd = [],
        files = [[''artifacts''] \<mapsto> Directory],
        refused = [[''artifacts'', ''screenshots''] \<mapsto> PermissionError]\<rparr> :: string World)
     = (Inl PermissionError,
      \<lparr>environ = [''TEST_ARTIFACT_DIR'' \<mapsto> ''/artifacts''], cwd = [],
        files = [[''artifacts''] \<mapsto> Directory],
        refused = [[''artifacts'', ''screenshots''] \<mapsto> PermissionError]\<rparr>)
   \<and> fst (register_widget id ''mod'' ''a/b'' ''image''
      (\<lparr>environ = [''TEST_ARTIFACT_DIR'' \<mapsto> ''/artifacts''], cwd = [],
        files = [[''artifacts''] \<mapsto> Directory],
        refused = Map.empty\<rparr> :: string World))
     = Inl IOError
   \<and> fst (register_widget id ''mod'' ''shot'' ''image''
      (\<lparr>environ = [''TEST_ARTIFACT_DIR'' \<mapsto> ''/artifacts''], cwd = [],
        files = [[''artifacts''] \<mapsto> Directory,
                 [''artifacts'', ''screenshots''] \<mapsto> Directory,
                 [''artifacts'', ''screenshots'', ''mod.shot.png''] \<mapsto> Directory],
        refused = Map.empty\<rparr> :: string World))
     = Inl IOError"
  by (simp add: register_widget_def getenv_def joinpath_def Path_def has_root_def
      mkdir_def os_mkdir_def write_to_png_def names_of_def start_def resolve_dir_def
      is_dir_def access_def)

text \<open>A directory named through \<open>..\<close> is resolved to its location.\<close>

lemma register_widget_through_parent:
  "register_widget id ''mod'' ''shot'' ''image''
      (\<lparr>environ = [''TEST_ARTIFACT_DIR'' \<mapsto> ''/x/../artifacts''], cwd = [],
        files = [[''x''] \<mapsto> Directory,
                 [''artifacts''] \<mapsto> Directory],
        refused = Map.empty\<rparr> :: string World)
     = (Inr (),
      \<lparr>environ = [''TEST_ARTIFACT_DIR'' \<mapsto> ''/x/../artifacts''], cwd = [],
        files = [[''x''] \<mapsto> Directory,
                 [''artifacts''] \<mapsto> Directory,
                 [''artifacts'', ''screenshots''] \<mapsto> Directory,
                 [''artifacts'', ''screenshots'', ''mod.shot.png''] \<mapsto> File ''image''],
        refused = Map.empty\<rparr>)"
  by (simp add: register_widget_def getenv_def joinpath_def Path_def has_root_def
      mkdir_def os_mkdir_def write_to_png_def names_of_def start_def resolve_dir_def
      is_dir_def access_def)

end
